theory Spec2Isabelle
  imports Main
begin

section \<open>Errors and strings\<close>

text \<open>
  Go's \<^verbatim>\<open>error\<close> values of \<^verbatim>\<open>lib/client/client.go\<close>. The file creates errors with
  \<^verbatim>\<open>trace.Errorf\<close> and \<^verbatim>\<open>trace.NotFound\<close> (a formatted message each) and passes on the
  errors its collaborators return (the ssh library, the terminal, the address parser).
  \<^verbatim>\<open>trace.Wrap\<close> adds a stack trace to an error and keeps the error, so it is the identity
  here.
\<close>

datatype error =
    LibError string            \<comment> \<open>an error returned by a collaborator\<close>
  | HandshakeFailed string     \<comment> \<open>the negotiation's error when the credential was rejected\<close>
  | EOF                        \<comment> \<open>\<^verbatim>\<open>io.EOF\<close>\<close>
  | Errorf string              \<comment> \<open>\<^verbatim>\<open>trace.Errorf(...)\<close>\<close>
  | NotFound string            \<comment> \<open>\<^verbatim>\<open>trace.NotFound(...)\<close>\<close>

text \<open>The message of an error, as \<^verbatim>\<open>%v\<close> prints it.\<close>

fun Error :: "error \<Rightarrow> string" where
  "Error (LibError s) = s"
| "Error (HandshakeFailed s) = s"
| "Error EOF = ''EOF''"
| "Error (Errorf s) = s"
| "Error (NotFound s) = s"

definition Wrap :: "error \<Rightarrow> error" where
  "Wrap err = err"

text \<open>
  Modelled from the spec: \<^verbatim>\<open>utils.IsHandshakeFailedError\<close> is not in the source file. The
  spec calls it the negotiation failing "specifically because the method was rejected
  (credential mismatch, not a transport/protocol error)".
\<close>

fun IsHandshakeFailedError :: "error \<Rightarrow> bool" where
  "IsHandshakeFailedError (HandshakeFailed s) = True"
| "IsHandshakeFailedError err = False"

text \<open>
  Modelled from the spec: \<^verbatim>\<open>trace.IsEOF\<close> is not in the source file. The spec calls it
  "an end-of-stream from the protocol side".
\<close>

fun IsEOF :: "error option \<Rightarrow> bool" where
  "IsEOF (Some EOF) = True"
| "IsEOF err = False"

text \<open>
  \<^verbatim>\<open>strings.Split(s, sep)\<close> for a separator of one character: the pieces of \<open>s\<close> between
  the occurrences of \<open>sep\<close>. The result is never empty; a string without the separator
  is its own single piece.
\<close>

fun Split :: "string \<Rightarrow> char \<Rightarrow> string list" where
  "Split [] sep = [[]]"
| "Split (c # cs) sep =
     (if c = sep then [] # Split cs sep
      else (case Split cs sep of
              [] \<Rightarrow> [[c]]
            | p # ps \<Rightarrow> (c # p) # ps))"

section \<open>The collaborators\<close>

text \<open>
  The ssh library, the terminal and the address parser are outside the source file. Their
  answers are parameters of the model: a session is the record of what its requests
  answer (\<open>None\<close> for a \<^verbatim>\<open>nil\<close> error), a client is the function that gives the session
  of the \<open>n\<close>-th call of \<^verbatim>\<open>NewSession\<close>, or its error.
\<close>

record SshSession =
  StdinPipe :: "error option"
  StdoutPipe :: "error option"
  StderrPipe :: "error option"
  RequestSubsystem :: "string \<Rightarrow> error option"
  RequestPty :: "string \<Rightarrow> nat \<Rightarrow> nat \<Rightarrow> error option"
  SessionShell :: "error option"
  Setenv :: "string \<Rightarrow> string \<Rightarrow> error option"
  SessionRun :: "string \<Rightarrow> error option"

record SshClient =
  NewSession :: "nat \<Rightarrow> error + SshSession"

type_synonym NetAddr = string

text \<open>
  \<^verbatim>\<open>ProxyClient\<close>, with the authentication methods of any type \<open>'m\<close>; the host key
  callback is passed to the negotiation unread and is part of \<open>NewClientConn\<close> below.
\<close>

record 'm ProxyClient =
  Client :: SshClient
  hostLogin :: string
  proxyAddress :: string
  authMethods :: "'m list"
  siteName :: string

record 'm NodeClient =
  NodeSsh :: SshClient               \<comment> \<open>the field \<^verbatim>\<open>Client\<close> of \<^verbatim>\<open>NodeClient\<close>\<close>
  Proxy :: "'m ProxyClient"

text \<open>
  \<open>ParseAddr\<close> is \<^verbatim>\<open>utils.ParseAddr\<close>. \<open>NewClientConn n addr user m\<close> is the answer of
  \<^verbatim>\<open>ssh.NewClientConn\<close> over the pipes of the proxy's \<open>n\<close>-th session, to the address
  \<open>addr\<close>, with the user \<open>user\<close> and the single authentication method \<open>m\<close>: an error, or
  the negotiated connection, which \<^verbatim>\<open>ssh.NewClient\<close> turns into a client.
\<close>

record 'm Ssh =
  ParseAddr :: "string \<Rightarrow> error + NetAddr"
  NewClientConn :: "nat \<Rightarrow> string \<Rightarrow> string \<Rightarrow> 'm \<Rightarrow> error + SshClient"

section \<open>Cluster selection: \<^verbatim>\<open>getSite\<close>\<close>

text \<open>
  \<^verbatim>\<open>services.Site\<close> is declared outside the source file; \<^verbatim>\<open>getSite\<close> reads its \<^verbatim>\<open>Name\<close>
  only. The other fields are the record's extension.
\<close>

record Site =
  Name :: string

text \<open>The \<^verbatim>\<open>for ... range sites\<close> loop of \<^verbatim>\<open>getSite\<close>: the first site of the name.\<close>

fun findSite :: "string \<Rightarrow> 'a Site_scheme list \<Rightarrow> 'a Site_scheme option" where
  "findSite name [] = None"
| "findSite name (site # sites) =
     (if Name site = name then Some site else findSite name sites)"

text \<open>
  \<^verbatim>\<open>getSite\<close>: \<open>sitesResult\<close> is what \<^verbatim>\<open>proxy.GetSites()\<close> returned (the relay's
  answer).
\<close>

definition getSite :: "'m ProxyClient \<Rightarrow> error + 'a Site_scheme list \<Rightarrow> error + 'a Site_scheme" where
  "getSite proxy sitesResult =
     (case sitesResult of
        Inl err \<Rightarrow> Inl (Wrap err)
      | Inr sites \<Rightarrow>
          if length sites = 0 then Inl (NotFound ''no sites registered'')
          else if siteName proxy = [] then Inr (sites ! 0)
          else (case findSite (siteName proxy) sites of
                  Some site \<Rightarrow> Inr site
                | None \<Rightarrow> Inl (NotFound (''site '' @ siteName proxy @ '' not found''))))"

section \<open>The credential trial loop: \<^verbatim>\<open>ConnectToNode\<close>\<close>

text \<open>
  What \<^verbatim>\<open>ConnectToNode\<close> does to the relay, in the order it does it. The number is the
  session's: the \<open>n\<close>-th session opened by this call.
\<close>

datatype 'm proxy_event =
    OpenSession nat                       \<comment> \<open>\<^verbatim>\<open>proxy.Client.NewSession()\<close>\<close>
  | OpenStdin nat
  | OpenStdout nat
  | OpenStderr nat
  | Subsystem nat string                  \<comment> \<open>\<^verbatim>\<open>RequestSubsystem\<close>\<close>
  | PrintErrors nat                       \<comment> \<open>the deferred \<^verbatim>\<open>printErrors()\<close>\<close>
  | Negotiate nat string string 'm        \<comment> \<open>\<^verbatim>\<open>ssh.NewClientConn\<close>: address, user, method\<close>
  | CloseSession nat                      \<comment> \<open>\<^verbatim>\<open>proxySession.Close()\<close>\<close>

text \<open>How one pass of the loop body ends: with a \<^verbatim>\<open>return\<close>, or with \<^verbatim>\<open>continue\<close> and the new \<open>e\<close>.\<close>

datatype 'm attempt =
    Return "error + 'm NodeClient"
  | Continue error

text \<open>
  The body of the \<^verbatim>\<open>for ... range proxy.authMethods\<close> loop, at its \<open>n\<close>-th pass. The
  test \<^verbatim>\<open>if err != nil\<close> after \<^verbatim>\<open>ssh.NewClient\<close> reads an \<^verbatim>\<open>err\<close> that is \<^verbatim>\<open>nil\<close> there and
  has no branch here.
\<close>

definition tryAuthMethod ::
  "'m Ssh \<Rightarrow> 'm ProxyClient \<Rightarrow> string \<Rightarrow> string \<Rightarrow> nat \<Rightarrow> 'm \<Rightarrow> 'm attempt \<times> 'm proxy_event list" where
  "tryAuthMethod ssh proxy nodeAddress user n authMethod =
     (case NewSession (Client proxy) n of
        Inl err \<Rightarrow> (Return (Inl (Wrap err)), [OpenSession n])
      | Inr proxySession \<Rightarrow>
     (case StdinPipe proxySession of
        Some err \<Rightarrow> (Return (Inl (Wrap err)), [OpenSession n, OpenStdin n])
      | None \<Rightarrow>
     (case StdoutPipe proxySession of
        Some err \<Rightarrow> (Return (Inl (Wrap err)), [OpenSession n, OpenStdin n, OpenStdout n])
      | None \<Rightarrow>
     (case StderrPipe proxySession of
        Some err \<Rightarrow>
          (Return (Inl (Wrap err)), [OpenSession n, OpenStdin n, OpenStdout n, OpenStderr n])
      | None \<Rightarrow>
     (case RequestSubsystem proxySession (''proxy:'' @ nodeAddress) of
        Some err \<Rightarrow>
          (let parts = Split nodeAddress CHR ''@'';
               site = parts ! (length parts - 1)
           in (Return (Inl (Errorf (''Failed connecting to cluster '' @ site @ '': '' @ Error err))),
               [OpenSession n, OpenStdin n, OpenStdout n, OpenStderr n,
                Subsystem n (''proxy:'' @ nodeAddress), PrintErrors n]))
      | None \<Rightarrow>
     (case NewClientConn ssh n nodeAddress user authMethod of
        Inl err \<Rightarrow>
          if IsHandshakeFailedError err
          then (Continue (Wrap err),
                [OpenSession n, OpenStdin n, OpenStdout n, OpenStderr n,
                 Subsystem n (''proxy:'' @ nodeAddress),
                 Negotiate n nodeAddress user authMethod, CloseSession n])
          else (Return (Inl (Wrap err)),
                [OpenSession n, OpenStdin n, OpenStdout n, OpenStderr n,
                 Subsystem n (''proxy:'' @ nodeAddress),
                 Negotiate n nodeAddress user authMethod])
      | Inr client \<Rightarrow>
          (Return (Inr \<lparr>NodeSsh = client, Proxy = proxy\<rparr>),
           [OpenSession n, OpenStdin n, OpenStdout n, OpenStderr n,
            Subsystem n (''proxy:'' @ nodeAddress),
            Negotiate n nodeAddress user authMethod])))))))"

text \<open>
  The loop: \<open>e\<close> is the variable \<^verbatim>\<open>e\<close>, \<open>n\<close> counts the passes. The result is the
  \<^verbatim>\<open>return\<close> of a pass (\<open>Inl\<close>) or, when the methods are used up, the last \<open>e\<close> (\<open>Inr\<close>).
\<close>

fun tryAuthMethods ::
  "'m Ssh \<Rightarrow> 'm ProxyClient \<Rightarrow> string \<Rightarrow> string \<Rightarrow> nat \<Rightarrow> error \<Rightarrow> 'm list
     \<Rightarrow> ((error + 'm NodeClient) + error) \<times> 'm proxy_event list" where
  "tryAuthMethods ssh proxy nodeAddress user n e [] = (Inr e, [])"
| "tryAuthMethods ssh proxy nodeAddress user n e (authMethod # rest) =
     (case tryAuthMethod ssh proxy nodeAddress user n authMethod of
        (Return r, evs) \<Rightarrow> (Inl r, evs)
      | (Continue e', evs) \<Rightarrow>
          (case tryAuthMethods ssh proxy nodeAddress user (Suc n) e' rest of
             (r, evs') \<Rightarrow> (r, evs @ evs')))"

definition ConnectToNode ::
  "'m Ssh \<Rightarrow> 'm ProxyClient \<Rightarrow> string \<Rightarrow> string \<Rightarrow> (error + 'm NodeClient) \<times> 'm proxy_event list" where
  \<open>ConnectToNode ssh proxy nodeAddress user =
     (let e = Errorf ''unknown Error'' in
      case ParseAddr ssh (''tcp://'' @ proxyAddress proxy) of
        Inl err \<Rightarrow> (Inl (Wrap err), [])
      | Inr localAddr \<Rightarrow>
     (case ParseAddr ssh (''tcp://'' @ nodeAddress) of
        Inl err \<Rightarrow> (Inl (Wrap err), [])
      | Inr fakeAddr \<Rightarrow>
     (case tryAuthMethods ssh proxy nodeAddress user 0 e (authMethods proxy) of
        (Inl r, evs) \<Rightarrow> (r, evs)
      | (Inr e', evs) \<Rightarrow>
          if IsHandshakeFailedError e'
          then (let parts = Split nodeAddress CHR ''@''
                in (Inl (Errorf (''access denied to login "'' @ user
                                 @ ''" when connecting to '' @ parts ! 0 @ '': '' @ Error e')),
                    evs))
          else (Inl e', evs))))\<close>

text \<open>
  For the statements about the loop. The \<open>n\<close>-th session is ready when it opens with its
  three pipes and the relay accepts the routing request; the \<open>n\<close>-th negotiation rejects
  the method when it fails with a handshake-failed error.
\<close>

definition sessionReady :: "'m ProxyClient \<Rightarrow> string \<Rightarrow> nat \<Rightarrow> bool" where
  "sessionReady proxy nodeAddress n =
     (case NewSession (Client proxy) n of
        Inl err \<Rightarrow> False
      | Inr s \<Rightarrow> StdinPipe s = None \<and> StdoutPipe s = None \<and> StderrPipe s = None
                 \<and> RequestSubsystem s (''proxy:'' @ nodeAddress) = None)"

definition rejected :: "'m Ssh \<Rightarrow> string \<Rightarrow> string \<Rightarrow> nat \<Rightarrow> 'm \<Rightarrow> bool" where
  "rejected ssh nodeAddress user n m =
     (case NewClientConn ssh n nodeAddress user m of
        Inl err \<Rightarrow> IsHandshakeFailedError err
      | Inr client \<Rightarrow> False)"

text \<open>The events of a pass that reaches the negotiation, and of a run of rejected passes.\<close>

definition negotiation :: "nat \<Rightarrow> string \<Rightarrow> string \<Rightarrow> 'm \<Rightarrow> 'm proxy_event list" where
  "negotiation n nodeAddress user m =
     [OpenSession n, OpenStdin n, OpenStdout n, OpenStderr n,
      Subsystem n (''proxy:'' @ nodeAddress), Negotiate n nodeAddress user m]"

fun rejections :: "nat \<Rightarrow> string \<Rightarrow> string \<Rightarrow> 'm list \<Rightarrow> 'm proxy_event list" where
  "rejections n nodeAddress user [] = []"
| "rejections n nodeAddress user (m # ms) =
     negotiation n nodeAddress user m @ [CloseSession n] @ rejections (Suc n) nodeAddress user ms"

fun lastRejection :: "'m Ssh \<Rightarrow> string \<Rightarrow> string \<Rightarrow> nat \<Rightarrow> error \<Rightarrow> 'm list \<Rightarrow> error" where
  "lastRejection ssh nodeAddress user n e [] = e"
| "lastRejection ssh nodeAddress user n e (m # ms) =
     lastRejection ssh nodeAddress user (Suc n)
       (case NewClientConn ssh n nodeAddress user m of Inl err \<Rightarrow> err | Inr client \<Rightarrow> e) ms"

text \<open>
  The spec's wording of the address an access-denied error names: "the address with any
  leading \<^verbatim>\<open><name>@\<close> routing prefix stripped".
\<close>

definition stripRoutingPrefix :: "string \<Rightarrow> string" where
  "stripRoutingPrefix addr =
     (if CHR ''@'' \<in> set addr then tl (dropWhile (\<lambda>c. c \<noteq> CHR ''@'') addr) else addr)"

text \<open>A relay for the examples: every session opens, every request is accepted.\<close>

definition readySession :: SshSession where
  "readySession =
     \<lparr>StdinPipe = None, StdoutPipe = None, StderrPipe = None,
      RequestSubsystem = (\<lambda>name. None), RequestPty = (\<lambda>term h w. None),
      SessionShell = None, Setenv = (\<lambda>k v. None), SessionRun = (\<lambda>cmd. None)\<rparr>"

definition readyClient :: SshClient where
  "readyClient = \<lparr>NewSession = (\<lambda>n. Inr readySession)\<rparr>"

definition exampleProxy :: "nat list \<Rightarrow> nat ProxyClient" where
  "exampleProxy ms =
     \<lparr>Client = readyClient, hostLogin = ''root'', proxyAddress = ''proxy:3023'',
      authMethods = ms, siteName = []\<rparr>"

text \<open>
  A node for the examples: it accepts the method \<open>2\<close>, rejects the methods below \<open>2\<close> with a
  handshake-failed error and breaks the protocol on the others.
\<close>

definition exampleSsh :: "nat Ssh" where
  "exampleSsh =
     \<lparr>ParseAddr = (\<lambda>s. Inr s),
      NewClientConn = (\<lambda>n addr user m.
         if m = 2 then Inr readyClient
         else if m < 2 then Inl (HandshakeFailed ''ssh: handshake failed'')
         else Inl (LibError ''ssh: unexpected message''))\<rparr>"

section \<open>Sessions: \<^verbatim>\<open>newSession\<close>, \<^verbatim>\<open>Shell\<close>, \<^verbatim>\<open>allocateTerminal\<close>\<close>

text \<open>
  \<^verbatim>\<open>term.Winsize\<close>, \<^verbatim>\<open>session.Session\<close> and \<^verbatim>\<open>session.TerminalParams\<close> are declared outside
  the source file, which reads the fields below. The sizes are natural numbers.
\<close>

record Winsize =
  Height :: nat
  Width :: nat

record TerminalParams =
  W :: nat
  H :: nat

record Session =
  ID :: string
  TerminalParams :: TerminalParams

text \<open>
  Modelled from the spec: \<^verbatim>\<open>TerminalParams.Winsize()\<close> is not in the source file. By the
  spec, on a join "geometry is inherited from that session's reported parameters".
\<close>

definition TerminalParams_Winsize :: "TerminalParams \<Rightarrow> Winsize" where
  "TerminalParams_Winsize p = \<lparr>Height = H p, Width = W p\<rparr>"

text \<open>\<^verbatim>\<open>%d\<close> of a natural number.\<close>

fun Itoa :: "nat \<Rightarrow> string" where
  "Itoa n = (if n < 10 then [''0123456789'' ! n]
             else Itoa (n div 10) @ [''0123456789'' ! (n mod 10)])"

text \<open>\<^verbatim>\<open>fmt.Sprintf("\x1b[8;%d;%dt", ws.Height, ws.Width)\<close>\<close>

definition resizeSequence :: "Winsize \<Rightarrow> string" where
  "resizeSequence ws = CHR 0x1B # ''[8;'' @ Itoa (Height ws) @ '';'' @ Itoa (Width ws) @ ''t''"

text \<open>
  The local side of \<^verbatim>\<open>newSession\<close>: the terminal on descriptor 0 (\<^verbatim>\<open>term.GetWinsize\<close>
  answers a size and an error, \<^verbatim>\<open>term.SetRawTerminal\<close> and \<^verbatim>\<open>term.SetWinsize\<close> an error),
  the process environment (\<^verbatim>\<open>os.Getenv\<close>), the identifier \<^verbatim>\<open>session.NewID()\<close> generates and
  the constant \<^verbatim>\<open>sshutils.SessionEnvVar\<close>.
\<close>

record Local =
  GetWinsize :: "Winsize \<times> error option"
  SetRawTerminal :: "error option"
  SetWinsize :: "Winsize \<Rightarrow> error option"
  Getenv :: "string \<Rightarrow> string"
  NewID :: string
  SessionEnvVar :: string

datatype session_event =
    TermGetWinsize                    \<comment> \<open>\<^verbatim>\<open>term.GetWinsize(0)\<close>\<close>
  | TermSetRaw                        \<comment> \<open>\<^verbatim>\<open>term.SetRawTerminal(0)\<close>\<close>
  | TermRestore                       \<comment> \<open>the deferred \<^verbatim>\<open>term.RestoreTerminal\<close>\<close>
  | TermSetWinsize Winsize            \<comment> \<open>\<^verbatim>\<open>term.SetWinsize(0, size)\<close>\<close>
  | StdoutWrite string                \<comment> \<open>\<^verbatim>\<open>os.Stdout.Write\<close>\<close>
  | GenerateID                        \<comment> \<open>\<^verbatim>\<open>session.NewID()\<close>\<close>
  | LogError error
  | LogWarn error
  | LogInfo
  | ServerNewSession                  \<comment> \<open>\<^verbatim>\<open>client.Client.NewSession()\<close>\<close>
  | ServerSetenv string string
  | ServerRequestPty string nat nat   \<comment> \<open>terminal type, height, width\<close>
  | ServerStdinPipe
  | ServerStdoutPipe
  | ServerStderrPipe
  | StartResizeLoop                   \<comment> \<open>\<^verbatim>\<open>go ns.updateTerminalSize(closer)\<close>\<close>
  | StartStderrCopy                   \<comment> \<open>\<^verbatim>\<open>go io.Copy(os.Stderr, stderr)\<close>\<close>
  | ServerShell                       \<comment> \<open>\<^verbatim>\<open>serverSession.Shell()\<close>\<close>
  | SiteConnect                       \<comment> \<open>\<^verbatim>\<open>Proxy.ConnectToSite()\<close>\<close>
  | SiteGetSession                    \<comment> \<open>\<^verbatim>\<open>siteClient.GetSession(ns.id)\<close>\<close>
  | SendWindowChange nat nat          \<comment> \<open>the window-change request: width, height\<close>

text \<open>
  \<^verbatim>\<open>NodeSession\<close>. The field \<^verbatim>\<open>id\<close> is \<open>sessionID\<close> here. A Go map is a list of keys and
  values without repeated keys, in the order \<^verbatim>\<open>range\<close> visits them (Go leaves the order
  open); \<^verbatim>\<open>nil\<close> is \<open>None\<close>.
\<close>

type_synonym envmap = "(string \<times> string) list"

record 'm NodeSession =
  sessionID :: string
  env :: envmap
  attachedTerm :: bool
  terminalSize :: Winsize
  serverSession :: SshSession
  nodeClient :: "'m NodeClient"

text \<open>\<^verbatim>\<open>m[key] = val\<close>\<close>

fun assign :: "envmap \<Rightarrow> string \<Rightarrow> string \<Rightarrow> envmap" where
  "assign [] key val = [(key, val)]"
| "assign ((k, v) # m) key val = (if k = key then (k, val) # m else (k, v) # assign m key val)"

fun logError :: "error option \<Rightarrow> session_event list" where
  "logError None = []"
| "logError (Some err) = [LogError err]"

fun logWarn :: "error option \<Rightarrow> session_event list" where
  "logWarn None = []"
| "logWarn (Some err) = [LogWarn err]"

text \<open>
  The block \<^verbatim>\<open>if attachedTerm { ... }\<close>: the size the session starts with, or the error of
  \<^verbatim>\<open>term.SetRawTerminal\<close>, with which \<^verbatim>\<open>newSession\<close> returns.
\<close>

definition readTerminal :: "Local \<Rightarrow> bool \<Rightarrow> (error + Winsize) \<times> session_event list" where
  "readTerminal local attached =
     (if attached
      then (case SetRawTerminal local of
              Some err \<Rightarrow>
                (Inl (Wrap err), [TermGetWinsize] @ logError (snd (GetWinsize local)) @ [TermSetRaw])
            | None \<Rightarrow>
                (Inr (fst (GetWinsize local)),
                 [TermGetWinsize] @ logError (snd (GetWinsize local)) @ [TermSetRaw]))
      else (Inr \<lparr>Height = 25, Width = 80\<rparr>, []))"

text \<open>
  The block \<^verbatim>\<open>if joinSession != nil { ... } else { ... }\<close>: the identifier and the size of
  the session.
\<close>

definition joinOrCreate ::
  "Local \<Rightarrow> Session option \<Rightarrow> bool \<Rightarrow> Winsize \<Rightarrow> (string \<times> Winsize) \<times> session_event list" where
  "joinOrCreate local joinSession attached ws =
     (case joinSession of
        Some joined \<Rightarrow>
          (let ws' = TerminalParams_Winsize (TerminalParams joined)
           in ((ID joined, ws'),
               if attached
               then [TermSetWinsize ws'] @ logError (SetWinsize local ws')
                    @ [StdoutWrite (resizeSequence ws')]
               else []))
      | None \<Rightarrow> ((NewID local, ws), [GenerateID]))"

text \<open>The two loops that pass the environment to the server-side session.\<close>

fun passLanguage :: "Local \<Rightarrow> SshSession \<Rightarrow> string list \<Rightarrow> session_event list" where
  "passLanguage local session [] = []"
| "passLanguage local session (evar # evars) =
     (if Getenv local evar \<noteq> []
      then [ServerSetenv evar (Getenv local evar)]
           @ logWarn (Setenv session evar (Getenv local evar))
      else [])
     @ passLanguage local session evars"

fun passEnv :: "SshSession \<Rightarrow> envmap \<Rightarrow> session_event list" where
  "passEnv session [] = []"
| "passEnv session ((key, val) # m) =
     [ServerSetenv key val] @ logWarn (Setenv session key val) @ passEnv session m"

text \<open>
  \<^verbatim>\<open>newSession\<close>. When \<^verbatim>\<open>env\<close> is not \<^verbatim>\<open>nil\<close>, \<^verbatim>\<open>ns.env\<close> is the same map, so the last loop
  visits the session variable too; when it is \<^verbatim>\<open>nil\<close>, the loop visits nothing.
\<close>

definition newSession ::
  "Local \<Rightarrow> 'm NodeClient \<Rightarrow> Session option \<Rightarrow> envmap option \<Rightarrow> bool
     \<Rightarrow> (error + 'm NodeSession) \<times> session_event list" where
  "newSession local client joinSession env0 attached =
     (case readTerminal local attached of
        (Inl err, evs) \<Rightarrow> (Inl err, evs)
      | (Inr ws, evs) \<Rightarrow>
     (case joinOrCreate local joinSession attached ws of
        ((ident, ws'), evs') \<Rightarrow>
     (let restore = (if attached then [TermRestore] else []);
          nsenv = assign (case env0 of None \<Rightarrow> [] | Some m \<Rightarrow> m) (SessionEnvVar local) ident;
          ranged = (case env0 of None \<Rightarrow> [] | Some m \<Rightarrow> nsenv)
      in case NewSession (NodeSsh client) 0 of
           Inl err \<Rightarrow> (Inl (Wrap err), evs @ evs' @ [ServerNewSession] @ restore)
         | Inr session \<Rightarrow>
             (Inr \<lparr>sessionID = ident, env = nsenv, attachedTerm = attached,
                   terminalSize = ws', serverSession = session, nodeClient = client\<rparr>,
              evs @ evs' @ [ServerNewSession]
              @ passLanguage local session [''LANG'', ''LANGUAGE'']
              @ passEnv session ranged @ restore))))"

text \<open>The pipe \<^verbatim>\<open>utils.NewPipeNetConn\<close> builds over the server-side session.\<close>

datatype Pipe = PipeNetConn

definition allocateTerminal :: "'m NodeSession \<Rightarrow> (error + Pipe) \<times> session_event list" where
  "allocateTerminal ns =
     (let pty = ServerRequestPty ''xterm'' (Height (terminalSize ns)) (Width (terminalSize ns))
      in
      case RequestPty (serverSession ns) ''xterm'' (Height (terminalSize ns)) (Width (terminalSize ns)) of
        Some err \<Rightarrow> (Inl (Wrap err), [pty])
      | None \<Rightarrow>
     (case StdinPipe (serverSession ns) of
        Some err \<Rightarrow> (Inl (Wrap err), [pty, ServerStdinPipe])
      | None \<Rightarrow>
     (case StdoutPipe (serverSession ns) of
        Some err \<Rightarrow> (Inl (Wrap err), [pty, ServerStdinPipe, ServerStdoutPipe])
      | None \<Rightarrow>
     (case StderrPipe (serverSession ns) of
        Some err \<Rightarrow> (Inl (Wrap err), [pty, ServerStdinPipe, ServerStdoutPipe, ServerStderrPipe])
      | None \<Rightarrow>
          (Inr PipeNetConn,
           [pty, ServerStdinPipe, ServerStdoutPipe, ServerStderrPipe]
           @ (if attachedTerm ns then [StartResizeLoop] else [])
           @ [StartStderrCopy])))))"

text \<open>
  \<^verbatim>\<open>Shell\<close>. Go returns the pair \<^verbatim>\<open>pipe, err\<close> of \<^verbatim>\<open>allocateTerminal\<close>, of which one is
  \<^verbatim>\<open>nil\<close>: the sum.
\<close>

definition Shell :: "'m NodeSession \<Rightarrow> (error + Pipe) \<times> session_event list" where
  "Shell nc =
     (case allocateTerminal nc of
        (pipe_err, evs) \<Rightarrow>
          (case SessionShell (serverSession nc) of
             Some err \<Rightarrow> (Inl (Wrap err), evs @ [ServerShell])
           | None \<Rightarrow> (pipe_err, evs @ [ServerShell])))"

text \<open>For the statements: what a run wrote to the standard output, and the events on the local terminal.\<close>

fun written :: "session_event list \<Rightarrow> string list" where
  "written [] = []"
| "written (StdoutWrite s # evs) = s # written evs"
| "written (ev # evs) = written evs"

fun touchesTerminal :: "session_event \<Rightarrow> bool" where
  "touchesTerminal TermGetWinsize = True"
| "touchesTerminal TermSetRaw = True"
| "touchesTerminal TermRestore = True"
| "touchesTerminal (TermSetWinsize ws) = True"
| "touchesTerminal (StdoutWrite s) = True"
| "touchesTerminal ev = False"

text \<open>A terminal, a node and a session to join, for the examples.\<close>

definition exampleLocal :: Local where
  "exampleLocal =
     \<lparr>GetWinsize = (\<lparr>Height = 24, Width = 100\<rparr>, None), SetRawTerminal = None,
      SetWinsize = (\<lambda>ws. None), Getenv = (\<lambda>evar. []), NewID = ''fresh'',
      SessionEnvVar = ''TELEPORT_SESSION''\<rparr>"

definition exampleNode :: "nat NodeClient" where
  "exampleNode = \<lparr>NodeSsh = readyClient, Proxy = exampleProxy [2]\<rparr>"

definition exampleJoined :: Session where
  "exampleJoined = \<lparr>ID = ''joined'', TerminalParams = \<lparr>W = 120, H = 40\<rparr>\<rparr>"

text \<open>A session whose server refuses the terminal; \<open>shell\<close> is the answer to the shell request.\<close>

definition refusedPty :: "error option \<Rightarrow> nat NodeSession" where
  "refusedPty shell =
     \<lparr>sessionID = ''fresh'', env = [], attachedTerm = False,
      terminalSize = \<lparr>Height = 25, Width = 80\<rparr>,
      serverSession = readySession
        \<lparr>RequestPty := (\<lambda>term h w. Some (LibError ''pty refused'')), SessionShell := shell\<rparr>,
      nodeClient = exampleNode\<rparr>"

section \<open>The resize loop: \<^verbatim>\<open>updateTerminalSize\<close>\<close>

text \<open>The variables of the loop.\<close>

record LoopState =
  currentSize :: Winsize
  prevSess :: "Session option"

text \<open>
  What the \<^verbatim>\<open>select\<close> receives, with the answers the collaborators give while the case
  runs: a \<^verbatim>\<open>nil\<close> from the signal channel; a window-size signal, with the answers of
  \<^verbatim>\<open>term.GetWinsize\<close> and of \<^verbatim>\<open>SendRequest\<close>; a tick, with the answers of \<^verbatim>\<open>GetSession\<close>,
  \<^verbatim>\<open>term.GetWinsize\<close> and \<^verbatim>\<open>term.SetWinsize\<close>; the close signal.
\<close>

datatype loop_input =
    SigNil
  | SigWinch "Winsize \<times> error option" "error option"
  | Tick "error + Session option" "Winsize \<times> error option" "error option"
  | CloserC

text \<open>
  After a case of the \<^verbatim>\<open>select\<close> the loop goes on with its variables, or the function has
  returned, or it has panicked (the call of \<^verbatim>\<open>GetSession\<close> on a \<^verbatim>\<open>nil\<close> site client, when
  \<^verbatim>\<open>ConnectToSite\<close> had failed).
\<close>

datatype loop_step = Goes LoopState | Returns | Panics

definition updateStep :: "bool \<Rightarrow> LoopState \<Rightarrow> loop_input \<Rightarrow> loop_step \<times> session_event list" where
  "updateStep siteConnected st input =
     (case input of
        SigNil \<Rightarrow> (Returns, [])
      | SigWinch got sent \<Rightarrow>
          (case snd got of
             Some err \<Rightarrow> (Goes st, [TermGetWinsize, LogWarn err])
           | None \<Rightarrow>
               if Height (fst got) = Height (currentSize st) \<and> Width (fst got) = Width (currentSize st)
               then (Goes st, [TermGetWinsize])
               else (Goes st,
                     [TermGetWinsize, SendWindowChange (Width (fst got)) (Height (fst got))]
                     @ logWarn sent))
      | Tick answer got resized \<Rightarrow>
          if \<not> siteConnected then (Panics, [])
          else
          (case answer of
             Inl err \<Rightarrow> (Goes st, [SiteGetSession, LogError err])
           | Inr sess \<Rightarrow>
               (case (prevSess st, sess) of
                  (Some prev, Some s) \<Rightarrow>
                    if W (TerminalParams prev) = W (TerminalParams s)
                       \<and> H (TerminalParams prev) = H (TerminalParams s)
                    then (Goes st, [SiteGetSession, LogInfo])
                    else
                      (let newSize = TerminalParams_Winsize (TerminalParams s)
                       in (Goes \<lparr>currentSize = fst got, prevSess = sess\<rparr>,
                           [SiteGetSession, LogInfo, TermGetWinsize] @ logError (snd got)
                           @ (if Width (fst got) \<noteq> Width newSize \<or> Height (fst got) \<noteq> Height newSize
                              then [TermSetWinsize newSize] @ logError resized
                                   @ [StdoutWrite (resizeSequence newSize)]
                              else [])))
                | other \<Rightarrow> (Goes (st \<lparr>prevSess := sess\<rparr>), [SiteGetSession])))
      | CloserC \<Rightarrow> (Returns, []))"

text \<open>
  The \<^verbatim>\<open>for { select { ... } }\<close> loop on the inputs of a run, as far as they go: when they
  are used up the loop is waiting in the \<^verbatim>\<open>select\<close>.
\<close>

fun updateLoop :: "bool \<Rightarrow> LoopState \<Rightarrow> loop_input list \<Rightarrow> loop_step \<times> session_event list" where
  "updateLoop siteConnected st [] = (Goes st, [])"
| "updateLoop siteConnected st (input # inputs) =
     (case updateStep siteConnected st input of
        (Goes st', evs) \<Rightarrow>
          (case updateLoop siteConnected st' inputs of (r, evs') \<Rightarrow> (r, evs @ evs'))
      | (r, evs) \<Rightarrow> (r, evs))"

text \<open>
  \<^verbatim>\<open>updateTerminalSize\<close>: \<open>got\<close> is the answer of the first \<^verbatim>\<open>term.GetWinsize(0)\<close>, whose
  error is dropped, \<open>site\<close> the error of \<^verbatim>\<open>ConnectToSite\<close>.
\<close>

definition updateTerminalSize ::
  "Winsize \<times> error option \<Rightarrow> error option \<Rightarrow> loop_input list \<Rightarrow> loop_step \<times> session_event list" where
  "updateTerminalSize got site inputs =
     (case updateLoop (site = None) \<lparr>currentSize = fst got, prevSess = None\<rparr> inputs of
        (r, evs) \<Rightarrow> (r, [TermGetWinsize, SiteConnect] @ logError site @ evs))"

section \<open>File transfer: \<^verbatim>\<open>scp\<close>\<close>

text \<open>
  The goroutine of \<^verbatim>\<open>scp\<close> assigns the result of \<^verbatim>\<open>scpCommand.Execute\<close> to the variable
  \<^verbatim>\<open>err\<close> that the function itself reads and assigns in
  \<^verbatim>\<open>if runErr != nil && err == nil { err = runErr }\<close>, with nothing to order the two before
  \<^verbatim>\<open><-closeC\<close>. The goroutine's assignment comes before the test of \<^verbatim>\<open>err\<close>, or between
  that test and the assignment \<^verbatim>\<open>err = runErr\<close>, or after the statement.
\<close>

datatype schedule = ExecuteFirst | ExecuteBetween | ExecuteLast

text \<open>
  The value of \<^verbatim>\<open>err\<close> when \<^verbatim>\<open><-closeC\<close> has returned: \<open>executed\<close> is the result of
  \<^verbatim>\<open>Execute\<close>, \<open>runErr\<close> that of \<^verbatim>\<open>session.Run\<close>. Before the two, \<^verbatim>\<open>err\<close> is \<^verbatim>\<open>nil\<close>.
\<close>

definition reconcile :: "schedule \<Rightarrow> error option \<Rightarrow> error option \<Rightarrow> error option" where
  "reconcile sched executed runErr =
     (let err0 = (None :: error option)
      in case sched of
           ExecuteFirst \<Rightarrow>
             (let err1 = executed;
                  err2 = (if runErr \<noteq> None \<and> err1 = None then runErr else err1)
              in err2)
         | ExecuteBetween \<Rightarrow>
             (let test = (runErr \<noteq> None \<and> err0 = None);
                  err1 = executed;
                  err2 = (if test then runErr else err1)
              in err2)
         | ExecuteLast \<Rightarrow>
             (let err1 = (if runErr \<noteq> None \<and> err0 = None then runErr else err0);
                  err2 = executed
              in err2))"

definition scp :: "'m NodeClient \<Rightarrow> error option \<Rightarrow> schedule \<Rightarrow> string \<Rightarrow> error option" where
  "scp client executed sched shellCmd =
     (case NewSession (NodeSsh client) 0 of
        Inl err \<Rightarrow> Some (Wrap err)
      | Inr session \<Rightarrow>
     (case StdinPipe session of
        Some err \<Rightarrow> Some (Wrap err)
      | None \<Rightarrow>
     (case StdoutPipe session of
        Some err \<Rightarrow> Some (Wrap err)
      | None \<Rightarrow>
          (let err = reconcile sched executed (SessionRun session shellCmd)
           in if IsEOF err then None else map_option Wrap err))))"

text \<open>A node for the examples whose remote command fails.\<close>

definition failingNode :: "nat NodeClient" where
  "failingNode =
     \<lparr>NodeSsh = \<lparr>NewSession = (\<lambda>n. Inr (readySession
          \<lparr>SessionRun := (\<lambda>cmd. Some (LibError ''Process exited with status 1''))\<rparr>))\<rparr>,
      Proxy = exampleProxy [2]\<rparr>"

section \<open>Port forwarding: \<^verbatim>\<open>listenAndForward\<close>\<close>

datatype 'c forward_event =
    Dial nat                    \<comment> \<open>\<^verbatim>\<open>client.Client.Dial\<close>, with the attempt's number\<close>
  | LogAttempt nat error        \<comment> \<open>\<^verbatim>\<open>log.Errorf("Connection attempt %v: %v", attempt, err)\<close>\<close>
  | Sleep nat                   \<comment> \<open>\<^verbatim>\<open>time.Sleep\<close>, in milliseconds\<close>
  | LogFailed                   \<comment> \<open>\<^verbatim>\<open>log.Errorf("Failed to connect to node %v", remoteAddr)\<close>\<close>
  | CopyStreams 'c              \<comment> \<open>the two \<^verbatim>\<open>io.Copy\<close>, both awaited\<close>
  | CloseConn 'c
  | CloseIncoming

text \<open>
  The loop \<^verbatim>\<open>for attempt := 1; attempt <= 5; attempt++\<close> with the variables \<^verbatim>\<open>conn\<close> and
  \<^verbatim>\<open>err\<close>; \<open>dial a\<close> is the answer to the attempt \<open>a\<close>.
\<close>

function dialLoop ::
  "(nat \<Rightarrow> error + 'c) \<Rightarrow> nat \<Rightarrow> 'c option \<Rightarrow> error option
     \<Rightarrow> ('c option \<times> error option) \<times> 'c forward_event list" where
  "dialLoop dial attempt conn err =
     (if attempt \<le> 5
      then (case dial attempt of
              Inl err' \<Rightarrow>
                (case dialLoop dial (attempt + 1) None (Some err') of
                   (r, evs) \<Rightarrow>
                     (r, [Dial attempt, LogAttempt attempt err', Sleep (100 * attempt)] @ evs))
            | Inr conn' \<Rightarrow> ((Some conn', None), [Dial attempt]))
      else ((conn, err), []))"
  by pat_completeness auto
termination
  by (relation "measure (\<lambda>(dial, attempt, conn, err). 6 - attempt)") auto

declare dialLoop.simps [simp del]

text \<open>
  How the handler of one incoming connection ends: abandoned, or with the streams copied
  both ways over the connection; a \<^verbatim>\<open>nil\<close> connection without an error would panic at
  \<^verbatim>\<open>conn.Close\<close>.
\<close>

datatype 'c handled = Abandoned | Forwarded 'c | NilConn

definition proxyConnection :: "(nat \<Rightarrow> error + 'c) \<Rightarrow> 'c handled \<times> 'c forward_event list" where
  "proxyConnection dial =
     (case dialLoop dial 1 None None of
        ((conn, Some err), evs) \<Rightarrow> (Abandoned, evs @ [LogFailed, CloseIncoming])
      | ((Some conn, None), evs) \<Rightarrow>
          (Forwarded conn, evs @ [CopyStreams conn, CloseConn conn, CloseIncoming])
      | ((None, None), evs) \<Rightarrow> (NilConn, evs @ [CloseIncoming]))"

text \<open>
  The accept loop. \<open>accepts\<close> are the answers of \<^verbatim>\<open>socket.Accept()\<close> in a run, as far as
  they go: \<open>None\<close> for a connection, an error otherwise. \<open>dial k\<close> answers the dials of
  the handler of the \<open>k\<close>-th connection. The result lists the handlers the loop has
  started, each with what it does; the handlers run on their own.
\<close>

fun acceptLoop ::
  "(nat \<Rightarrow> nat \<Rightarrow> error + 'c) \<Rightarrow> nat \<Rightarrow> error option list
     \<Rightarrow> ('c handled \<times> 'c forward_event list) list" where
  "acceptLoop dial k [] = []"
| "acceptLoop dial k (Some err # accepts) = []"
| "acceptLoop dial k (None # accepts) = proxyConnection (dial k) # acceptLoop dial (Suc k) accepts"

definition listenAndForward ::
  "(nat \<Rightarrow> nat \<Rightarrow> error + 'c) \<Rightarrow> error option list \<Rightarrow> ('c handled \<times> 'c forward_event list) list" where
  "listenAndForward dial accepts = acceptLoop dial 0 accepts"

text \<open>For the statements: the events of the failed attempts among \<open>as\<close>, and the number of dials.\<close>

fun backoffs :: "(nat \<Rightarrow> error + 'c) \<Rightarrow> nat list \<Rightarrow> 'c forward_event list" where
  "backoffs dial [] = []"
| "backoffs dial (a # as) =
     (case dial a of
        Inl err \<Rightarrow> [Dial a, LogAttempt a err, Sleep (100 * a)]
      | Inr conn \<Rightarrow> [])
     @ backoffs dial as"

fun dials :: "'c forward_event list \<Rightarrow> nat" where
  "dials [] = 0"
| "dials (Dial a # evs) = Suc (dials evs)"
| "dials (ev # evs) = dials evs"

text \<open>
  A target for the examples: the connection \<open>1\<close> is never reached, the others at the
  fifth attempt.
\<close>

definition flakyDial :: "nat \<Rightarrow> nat \<Rightarrow> error + nat" where
  "flakyDial k a =
     (if k = 1 then Inl (LibError ''refused'')
      else if a < 5 then Inl (LibError ''refused'')
      else Inr k)"

section \<open>Theorems\<close>

subsection \<open>Cluster selection\<close>

lemma findSite_None: "findSite n sites = None \<longleftrightarrow> (\<forall>s \<in> set sites. Name s \<noteq> n)"
  by (induction sites) auto

lemma findSite_Some: "findSite n sites = Some s \<Longrightarrow> s \<in> set sites \<and> Name s = n"
  by (induction sites) (auto split: if_splits)

text \<open>
  C4. Cluster selection. On an empty list \<^verbatim>\<open>getSite\<close> fails with a not-found error
  whatever name is configured. On a non-empty list with no name configured it returns the
  first listed record. With a name configured it returns a listed record of exactly that
  name, and when no listed record has that name it fails with a not-found error whose
  message carries the name.
\<close>

theorem getSite_selects:
  "getSite proxy (Inr []) = Inl (NotFound ''no sites registered'')
   \<and> (sites \<noteq> [] \<and> siteName proxy = [] \<longrightarrow> getSite proxy (Inr sites) = Inr (hd sites))
   \<and> (sites \<noteq> [] \<and> siteName proxy \<noteq> [] \<and> (\<exists>s \<in> set sites. Name s = siteName proxy) \<longrightarrow>
        (\<exists>s. getSite proxy (Inr sites) = Inr s \<and> s \<in> set sites \<and> Name s = siteName proxy))
   \<and> (sites \<noteq> [] \<and> siteName proxy \<noteq> [] \<and> (\<forall>s \<in> set sites. Name s \<noteq> siteName proxy) \<longrightarrow>
        getSite proxy (Inr sites) = Inl (NotFound (''site '' @ siteName proxy @ '' not found'')))"
proof (intro conjI impI)
  show "getSite proxy (Inr []) = Inl (NotFound ''no sites registered'')"
    by (simp add: getSite_def)
next
  assume "sites \<noteq> [] \<and> siteName proxy = []"
  then show "getSite proxy (Inr sites) = Inr (hd sites)"
    by (cases sites) (simp_all add: getSite_def)
next
  assume a: "sites \<noteq> [] \<and> siteName proxy \<noteq> [] \<and> (\<exists>s \<in> set sites. Name s = siteName proxy)"
  then obtain s where s: "findSite (siteName proxy) sites = Some s"
    using findSite_None [of "siteName proxy" sites] by (cases "findSite (siteName proxy) sites") auto
  with a have "getSite proxy (Inr sites) = Inr s"
    by (simp add: getSite_def)
  with findSite_Some [OF s]
  show "\<exists>s. getSite proxy (Inr sites) = Inr s \<and> s \<in> set sites \<and> Name s = siteName proxy"
    by blast
next
  assume a: "sites \<noteq> [] \<and> siteName proxy \<noteq> [] \<and> (\<forall>s \<in> set sites. Name s \<noteq> siteName proxy)"
  then have "findSite (siteName proxy) sites = None"
    by (simp add: findSite_None)
  with a show "getSite proxy (Inr sites) = Inl (NotFound (''site '' @ siteName proxy @ '' not found''))"
    by (simp add: getSite_def)
qed

theorem getSite_selects_witness:
  "getSite (exampleProxy []) (Inr [\<lparr>Name = ''a''\<rparr>, \<lparr>Name = ''b''\<rparr>]) = Inr \<lparr>Name = ''a''\<rparr>
   \<and> (\<exists>s. getSite ((exampleProxy []) \<lparr>siteName := ''b''\<rparr>) (Inr [\<lparr>Name = ''a''\<rparr>, \<lparr>Name = ''b''\<rparr>])
            = Inr s \<and> Name s = ''b'')
   \<and> getSite ((exampleProxy []) \<lparr>siteName := ''c''\<rparr>) (Inr [\<lparr>Name = ''a''\<rparr>, \<lparr>Name = ''b''\<rparr>])
       = Inl (NotFound ''site c not found'')"
  using getSite_selects [of "exampleProxy []" "[\<lparr>Name = ''a''\<rparr>, \<lparr>Name = ''b''\<rparr>]"]
    getSite_selects [of "(exampleProxy []) \<lparr>siteName := ''b''\<rparr>" "[\<lparr>Name = ''a''\<rparr>, \<lparr>Name = ''b''\<rparr>]"]
    getSite_selects [of "(exampleProxy []) \<lparr>siteName := ''c''\<rparr>" "[\<lparr>Name = ''a''\<rparr>, \<lparr>Name = ''b''\<rparr>]"]
  by (auto simp: exampleProxy_def)

subsection \<open>The credential trial loop\<close>

lemma tryAuthMethod_rejected:
  assumes "sessionReady proxy addr n" and "rejected ssh addr user n m"
  shows "\<exists>err. NewClientConn ssh n addr user m = Inl err \<and>
           tryAuthMethod ssh proxy addr user n m
             = (Continue err, negotiation n addr user m @ [CloseSession n])"
  using assms
  by (auto simp: sessionReady_def rejected_def tryAuthMethod_def negotiation_def Wrap_def
           split: sum.splits option.splits)

lemma tryAuthMethod_settled:
  assumes "sessionReady proxy addr n" and "\<not> rejected ssh addr user n m"
  shows "tryAuthMethod ssh proxy addr user n m
           = (Return (case NewClientConn ssh n addr user m of
                        Inl err \<Rightarrow> Inl err
                      | Inr client \<Rightarrow> Inr \<lparr>NodeSsh = client, Proxy = proxy\<rparr>),
              negotiation n addr user m)"
  using assms
  by (auto simp: sessionReady_def rejected_def tryAuthMethod_def negotiation_def Wrap_def
           split: sum.splits option.splits)

lemma tryAuthMethods_rejected_prefix:
  assumes "\<forall>j < length pre. sessionReady proxy addr (n + j) \<and> rejected ssh addr user (n + j) (pre ! j)"
  shows "tryAuthMethods ssh proxy addr user n e (pre @ rest)
           = (case tryAuthMethods ssh proxy addr user (n + length pre)
                     (lastRejection ssh addr user n e pre) rest of
                (r, evs) \<Rightarrow> (r, rejections n addr user pre @ evs))"
  using assms
proof (induction pre arbitrary: n e)
  case Nil
  then show ?case by (simp split: prod.splits)
next
  case (Cons m pre)
  from Cons.prems have "sessionReady proxy addr n" and "rejected ssh addr user n m"
    by auto
  from tryAuthMethod_rejected [OF this] obtain err
    where err: "NewClientConn ssh n addr user m = Inl err"
      and body: "tryAuthMethod ssh proxy addr user n m
                   = (Continue err, negotiation n addr user m @ [CloseSession n])"
    by blast
  have tl: "\<forall>j < length pre. sessionReady proxy addr (Suc n + j)
                \<and> rejected ssh addr user (Suc n + j) (pre ! j)"
  proof (intro allI impI)
    fix j assume "j < length pre"
    then have "Suc j < length (m # pre)" by simp
    with Cons.prems have "sessionReady proxy addr (n + Suc j)
        \<and> rejected ssh addr user (n + Suc j) ((m # pre) ! Suc j)" by blast
    then show "sessionReady proxy addr (Suc n + j) \<and> rejected ssh addr user (Suc n + j) (pre ! j)"
      by simp
  qed
  show ?case
    by (simp add: body err Cons.IH [OF tl] split: prod.splits)
qed

lemma lastRejection_snoc:
  "lastRejection ssh addr user n e (pre @ [m])
     = (case NewClientConn ssh (n + length pre) addr user m of
          Inl err \<Rightarrow> err
        | Inr client \<Rightarrow> lastRejection ssh addr user n e pre)"
  by (induction pre arbitrary: n e) (auto split: sum.splits)

lemma Split_not_Nil: "Split s c \<noteq> []"
  by (induction s) (auto split: list.splits)

lemma Split_first: "Split s c ! 0 = takeWhile (\<lambda>x. x \<noteq> c) s"
proof (induction s)
  case Nil
  then show ?case by simp
next
  case (Cons a s)
  then show ?case
    using Split_not_Nil [of s c] by (cases "Split s c") auto
qed

text \<open>
  C1. The methods are tried in the configured order, one pass at a time. Let the
  configured list be \<open>pre @ m # post\<close>, let every pass up to the one of \<open>m\<close> reach the
  negotiation, let the negotiation reject every method of \<open>pre\<close> with a handshake-failed
  error, and let it not reject \<open>m\<close>. Then \<^verbatim>\<open>ConnectToNode\<close> negotiates with the methods
  of \<open>pre\<close> in order, closes the session of each rejected pass before the next pass
  opens its own, negotiates with \<open>m\<close> and stops: no method of \<open>post\<close> is tried. When the
  negotiation with \<open>m\<close> fails otherwise, that error is returned; when it succeeds, the
  node client over the negotiated connection is returned, and no error of \<open>pre\<close>.
\<close>

theorem ConnectToNode_in_order:
  assumes "ParseAddr ssh (''tcp://'' @ proxyAddress proxy) = Inr localAddr"
    and "ParseAddr ssh (''tcp://'' @ nodeAddress) = Inr fakeAddr"
    and "authMethods proxy = pre @ m # post"
    and "\<forall>j \<le> length pre. sessionReady proxy nodeAddress j"
    and "\<forall>j < length pre. rejected ssh nodeAddress user j (pre ! j)"
    and "\<not> rejected ssh nodeAddress user (length pre) m"
  shows "ConnectToNode ssh proxy nodeAddress user
           = (case NewClientConn ssh (length pre) nodeAddress user m of
                Inl err \<Rightarrow> Inl err
              | Inr client \<Rightarrow> Inr \<lparr>NodeSsh = client, Proxy = proxy\<rparr>,
              rejections 0 nodeAddress user pre @ negotiation (length pre) nodeAddress user m)"
proof -
  have pre: "\<forall>j < length pre. sessionReady proxy nodeAddress (0 + j)
                \<and> rejected ssh nodeAddress user (0 + j) (pre ! j)"
    using assms(4,5) by simp
  have last: "sessionReady proxy nodeAddress (length pre)"
    using assms(4) by simp
  have "tryAuthMethods ssh proxy nodeAddress user 0 (Errorf ''unknown Error'') (pre @ m # post)
          = (Inl (case NewClientConn ssh (length pre) nodeAddress user m of
                    Inl err \<Rightarrow> Inl err
                  | Inr client \<Rightarrow> Inr \<lparr>NodeSsh = client, Proxy = proxy\<rparr>),
             rejections 0 nodeAddress user pre @ negotiation (length pre) nodeAddress user m)"
    by (simp add: tryAuthMethods_rejected_prefix [OF pre]
          tryAuthMethod_settled [OF last assms(6)])
  with assms(1,2,3) show ?thesis
    by (simp add: ConnectToNode_def)
qed

theorem ConnectToNode_in_order_witness:
  "ConnectToNode exampleSsh (exampleProxy [0, 1, 2, 3]) ''node@site'' ''root''
     = (Inr \<lparr>NodeSsh = readyClient, Proxy = exampleProxy [0, 1, 2, 3]\<rparr>,
        rejections 0 ''node@site'' ''root'' [0, 1] @ negotiation 2 ''node@site'' ''root'' 2)
   \<and> ConnectToNode exampleSsh (exampleProxy [0, 3, 2]) ''node@site'' ''root''
     = (Inl (LibError ''ssh: unexpected message''),
        rejections 0 ''node@site'' ''root'' [0] @ negotiation 1 ''node@site'' ''root'' 3)"
  using ConnectToNode_in_order [where ssh = exampleSsh and proxy = "exampleProxy [0, 1, 2, 3]"
      and nodeAddress = "''node@site''" and user = "''root''"
      and localAddr = "''tcp://proxy:3023''" and fakeAddr = "''tcp://node@site''"
      and pre = "[0, 1]" and m = 2 and post = "[3]"]
    ConnectToNode_in_order [where ssh = exampleSsh and proxy = "exampleProxy [0, 3, 2]"
      and nodeAddress = "''node@site''" and user = "''root''"
      and localAddr = "''tcp://proxy:3023''" and fakeAddr = "''tcp://node@site''"
      and pre = "[0]" and m = 3 and post = "[2]"]
  by (simp add: exampleSsh_def exampleProxy_def readyClient_def readySession_def
        sessionReady_def rejected_def nth_Cons' less_Suc_eq numeral_2_eq_2)

text \<open>
  C2, as the code has it. Let the configured list be non-empty, \<open>pre @ [m]\<close>, let every
  pass reach the negotiation and let the negotiation reject every method with a
  handshake-failed error. Then \<^verbatim>\<open>ConnectToNode\<close> returns the access-denied error whose
  message names the login user and the part of the node address before its first \<open>@\<close>
  (the address without the \<^verbatim>\<open>@<cluster>\<close> that follows the node), followed by the error of
  the last negotiation.
\<close>

theorem ConnectToNode_all_rejected:
  assumes "ParseAddr ssh (''tcp://'' @ proxyAddress proxy) = Inr localAddr"
    and "ParseAddr ssh (''tcp://'' @ nodeAddress) = Inr fakeAddr"
    and "authMethods proxy = pre @ [m]"
    and "\<forall>j \<le> length pre. sessionReady proxy nodeAddress j"
    and "\<forall>j < length pre. rejected ssh nodeAddress user j (pre ! j)"
    and "rejected ssh nodeAddress user (length pre) m"
  shows \<open>\<exists>err. NewClientConn ssh (length pre) nodeAddress user m = Inl err \<and>
           ConnectToNode ssh proxy nodeAddress user
             = (Inl (Errorf (''access denied to login "'' @ user @ ''" when connecting to ''
                        @ takeWhile (\<lambda>c. c \<noteq> CHR ''@'') nodeAddress @ '': '' @ Error err)),
                rejections 0 nodeAddress user (pre @ [m]))\<close>
proof -
  have all: "\<forall>j < length (pre @ [m]). sessionReady proxy nodeAddress (0 + j)
                \<and> rejected ssh nodeAddress user (0 + j) ((pre @ [m]) ! j)"
    using assms(4,5,6) by (auto simp: nth_append less_Suc_eq)
  obtain err where err: "NewClientConn ssh (length pre) nodeAddress user m = Inl err"
      and hf: "IsHandshakeFailedError err"
    using assms(6) by (auto simp: rejected_def split: sum.splits)
  have "tryAuthMethods ssh proxy nodeAddress user 0 (Errorf ''unknown Error'') ((pre @ [m]) @ [])
          = (Inr err, rejections 0 nodeAddress user (pre @ [m]))"
    unfolding tryAuthMethods_rejected_prefix [OF all]
    by (simp add: lastRejection_snoc err)
  with assms(1,2,3) err hf show ?thesis
    by (simp add: ConnectToNode_def Split_first)
qed

theorem ConnectToNode_all_rejected_witness:
  \<open>ConnectToNode exampleSsh (exampleProxy [0, 1]) ''node@site'' ''root''
     = (Inl (Errorf ''access denied to login "root" when connecting to node: ssh: handshake failed''),
        rejections 0 ''node@site'' ''root'' [0, 1])\<close>
  using ConnectToNode_all_rejected [where ssh = exampleSsh and proxy = "exampleProxy [0, 1]"
      and nodeAddress = "''node@site''" and user = "''root''"
      and localAddr = "''tcp://proxy:3023''" and fakeAddr = "''tcp://node@site''"
      and pre = "[0]" and m = 1]
  by (simp add: exampleSsh_def exampleProxy_def readyClient_def readySession_def
        sessionReady_def rejected_def)

text \<open>
  C2, as the spec has it, fails. With the two methods rejected at the address
  \<^verbatim>\<open>node@site\<close>, the error names \<^verbatim>\<open>node\<close>; the address with its leading \<^verbatim>\<open><name>@\<close>
  stripped is \<^verbatim>\<open>site\<close>.
\<close>

theorem ConnectToNode_names_prefix:
  \<open>fst (ConnectToNode exampleSsh (exampleProxy [0, 1]) ''node@site'' ''root'')
     = Inl (Errorf ''access denied to login "root" when connecting to node: ssh: handshake failed'')
   \<and> fst (ConnectToNode exampleSsh (exampleProxy [0, 1]) ''node@site'' ''root'')
     \<noteq> Inl (Errorf (''access denied to login "root" when connecting to ''
                @ stripRoutingPrefix ''node@site'' @ '': ssh: handshake failed''))\<close>
  by (simp add: ConnectToNode_def tryAuthMethod_def exampleSsh_def exampleProxy_def
        readyClient_def readySession_def Wrap_def stripRoutingPrefix_def)

text \<open>
  C9. With no authentication method configured and both addresses parsed,
  \<^verbatim>\<open>ConnectToNode\<close> does nothing to the relay and returns the error \<^verbatim>\<open>unknown Error\<close> it
  starts with, which is no access-denied error, whatever target and cause such an error
  would name.
\<close>

theorem ConnectToNode_no_methods:
  assumes "ParseAddr ssh (''tcp://'' @ proxyAddress proxy) = Inr localAddr"
    and "ParseAddr ssh (''tcp://'' @ nodeAddress) = Inr fakeAddr"
    and "authMethods proxy = []"
  shows \<open>ConnectToNode ssh proxy nodeAddress user = (Inl (Errorf ''unknown Error''), [])
         \<and> fst (ConnectToNode ssh proxy nodeAddress user)
             \<noteq> Inl (Errorf (''access denied to login "'' @ user @ ''" when connecting to ''
                        @ target @ '': '' @ cause))\<close>
  using assms by (simp add: ConnectToNode_def)

theorem ConnectToNode_no_methods_witness:
  "ConnectToNode exampleSsh (exampleProxy []) ''node@site'' ''root''
     = (Inl (Errorf ''unknown Error''), [])"
  using ConnectToNode_no_methods [where ssh = exampleSsh and proxy = "exampleProxy []"
      and nodeAddress = "''node@site''" and user = "''root''"
      and localAddr = "''tcp://proxy:3023''" and fakeAddr = "''tcp://node@site''"]
  by (simp add: exampleSsh_def exampleProxy_def)


subsection \<open>Sessions\<close>


lemma written_append: "written (xs @ ys) = written xs @ written ys"
  by (induction xs rule: written.induct) auto

lemma written_logError: "written (logError e) = []"
  by (cases e) auto

lemma written_logWarn: "written (logWarn e) = []"
  by (cases e) auto

lemma written_passLanguage: "written (passLanguage local session evars) = []"
  by (induction evars) (auto simp: written_append written_logWarn)

lemma written_passEnv: "written (passEnv session m) = []"
  by (induction m) (auto simp: written_append written_logWarn)

lemma GenerateID_logError: "GenerateID \<notin> set (logError e)"
  by (cases e) auto

lemma GenerateID_logWarn: "GenerateID \<notin> set (logWarn e)"
  by (cases e) auto

lemma GenerateID_passLanguage: "GenerateID \<notin> set (passLanguage local session evars)"
  by (induction evars) (auto simp: GenerateID_logWarn)

lemma GenerateID_passEnv: "GenerateID \<notin> set (passEnv session m)"
  by (induction m) (auto simp: GenerateID_logWarn)

text \<open>
  C5. Joining a session with a terminal attached. When the terminal goes into raw mode
  and the server-side session opens, \<^verbatim>\<open>newSession\<close> returns a session whose identifier
  is the joined session's (\<^verbatim>\<open>session.NewID\<close> is not called), whose terminal size is the
  width and height of the joined session's parameters, and the standard output receives
  exactly the resize sequence \<^verbatim>\<open>ESC[8;<height>;<width>t\<close> of that size; for a session of
  120 by 40 that is \<^verbatim>\<open>ESC[8;40;120t\<close>.
\<close>

theorem newSession_join:
  assumes "SetRawTerminal local = None"
    and "NewSession (NodeSsh client) 0 = Inr session"
  shows "\<exists>ns evs. newSession local client (Some joined) env0 True = (Inr ns, evs)
           \<and> sessionID ns = ID joined
           \<and> Width (terminalSize ns) = W (TerminalParams joined)
           \<and> Height (terminalSize ns) = H (TerminalParams joined)
           \<and> written evs = [CHR 0x1B # ''[8;'' @ Itoa (H (TerminalParams joined)) @ '';''
                               @ Itoa (W (TerminalParams joined)) @ ''t'']
           \<and> GenerateID \<notin> set evs"
  using assms
  by (simp add: newSession_def readTerminal_def joinOrCreate_def TerminalParams_Winsize_def
        resizeSequence_def written_append written_logError written_passLanguage written_passEnv
        GenerateID_logError GenerateID_passLanguage GenerateID_passEnv Let_def
        del: Itoa.simps passLanguage.simps)

theorem newSession_join_witness:
  "\<exists>ns evs. newSession exampleLocal exampleNode (Some exampleJoined) None True = (Inr ns, evs)
           \<and> sessionID ns = ''joined''
           \<and> Width (terminalSize ns) = 120
           \<and> Height (terminalSize ns) = 40
           \<and> written evs = [CHR 0x1B # ''[8;40;120t'']
           \<and> GenerateID \<notin> set evs"
  using newSession_join [of exampleLocal exampleNode readySession exampleJoined None]
  by (simp add: exampleLocal_def exampleNode_def exampleJoined_def readyClient_def)

lemma touches_logWarn: "\<forall>ev \<in> set (logWarn e). \<not> touchesTerminal ev"
  by (cases e) auto

lemma touches_passLanguage: "\<forall>ev \<in> set (passLanguage local session evars). \<not> touchesTerminal ev"
  using touches_logWarn by (induction evars) auto

lemma touches_passEnv: "\<forall>ev \<in> set (passEnv session m). \<not> touchesTerminal ev"
  using touches_logWarn by (induction m) auto

text \<open>
  C10. A new session without a terminal. \<^verbatim>\<open>newSession\<close> with no session to join and no
  terminal attached never queries or changes the local terminal, whatever the
  collaborators answer; the session it returns has the size 80 by 25; and it returns a
  session whenever the server-side session opens.
\<close>

theorem newSession_default_size:
  "(\<forall>ev \<in> set (snd (newSession local client None env0 False)). \<not> touchesTerminal ev)
   \<and> (\<forall>ns. fst (newSession local client None env0 False) = Inr ns
          \<longrightarrow> terminalSize ns = \<lparr>Height = 25, Width = 80\<rparr>)
   \<and> (\<forall>session. NewSession (NodeSsh client) 0 = Inr session
          \<longrightarrow> (\<exists>ns. fst (newSession local client None env0 False) = Inr ns
                 \<and> sessionID ns = NewID local))"
  using touches_passLanguage [of local _ "[''LANG'', ''LANGUAGE'']"] touches_passEnv
  by (auto simp: newSession_def readTerminal_def joinOrCreate_def Let_def
        simp del: passLanguage.simps split: sum.splits)

theorem newSession_default_size_witness:
  "(\<exists>ns. fst (newSession exampleLocal exampleNode None None False) = Inr ns
         \<and> terminalSize ns = \<lparr>Height = 25, Width = 80\<rparr>
         \<and> sessionID ns = ''fresh'')
   \<and> filter touchesTerminal (snd (newSession exampleLocal exampleNode None None False)) = []"
  using newSession_default_size [of exampleLocal exampleNode None]
  by (auto simp: exampleNode_def readyClient_def exampleLocal_def filter_empty_conv)

text \<open>
  C8. \<^verbatim>\<open>Shell\<close> sends the shell request after whatever \<^verbatim>\<open>allocateTerminal\<close> did, also when
  \<^verbatim>\<open>allocateTerminal\<close> failed. When the allocation failed and the shell request fails too,
  the error of the shell request is returned; the allocation's error is returned only
  when the shell request succeeds.
\<close>

theorem Shell_starts_regardless:
  "snd (Shell nc) = snd (allocateTerminal nc) @ [ServerShell]
   \<and> (\<forall>allocErr. fst (allocateTerminal nc) = Inl allocErr \<longrightarrow>
        fst (Shell nc) = (case SessionShell (serverSession nc) of
                            Some shellErr \<Rightarrow> Inl shellErr
                          | None \<Rightarrow> Inl allocErr))"
  by (auto simp: Shell_def Wrap_def split: prod.splits option.splits)

theorem Shell_starts_regardless_witness:
  "Shell (refusedPty (Some (LibError ''shell refused'')))
     = (Inl (LibError ''shell refused''), [ServerRequestPty ''xterm'' 25 80, ServerShell])
   \<and> Shell (refusedPty None)
     = (Inl (LibError ''pty refused''), [ServerRequestPty ''xterm'' 25 80, ServerShell])"
proof -
  have a: "allocateTerminal (refusedPty shell)
             = (Inl (LibError ''pty refused''), [ServerRequestPty ''xterm'' 25 80])" for shell
    by (simp add: allocateTerminal_def refusedPty_def readySession_def Wrap_def)
  show ?thesis
    using Shell_starts_regardless [of "refusedPty (Some (LibError ''shell refused''))"]
      Shell_starts_regardless [of "refusedPty None"]
    by (simp add: a prod_eq_iff) (simp add: refusedPty_def)
qed


subsection \<open>The resize loop\<close>


lemma updateLoop_append:
  "updateLoop sc st (xs @ ys)
     = (case updateLoop sc st xs of
          (Goes st', evs) \<Rightarrow> (case updateLoop sc st' ys of (r, evs') \<Rightarrow> (r, evs @ evs'))
        | (r, evs) \<Rightarrow> (r, evs))"
proof (induction xs arbitrary: st)
  case Nil
  then show ?case by (simp split: prod.splits)
next
  case (Cons x xs)
  show ?case
  proof (cases "updateStep sc st x")
    case (Pair r evs)
    then show ?thesis
      by (cases r) (auto simp: Cons.IH split: prod.splits loop_step.splits)
  qed
qed

text \<open>A window-size signal leaves the variables of the loop as they are.\<close>

lemma updateStep_signal_keeps_state:
  "fst (updateStep siteConnected st (SigWinch got sent)) = Goes st"
  by (cases "snd got") (simp_all add: updateStep_def)

text \<open>
  What the guard of the signal case does: after any inputs that leave the loop running, a
  signal at which the terminal has the size held in \<^verbatim>\<open>currentSize\<close> sends no request.
\<close>

lemma updateLoop_signal_at_currentSize:
  assumes "updateLoop siteConnected st inputs = (Goes st', evs)"
    and "Height ws = Height (currentSize st')"
    and "Width ws = Width (currentSize st')"
  shows "updateLoop siteConnected st (inputs @ [SigWinch (ws, gerr) sent])
           = (Goes st', evs @ [TermGetWinsize] @ logWarn gerr)"
  using assms
  by (cases gerr) (simp_all add: updateLoop_append updateStep_def)

text \<open>
  C6. The loop is to send no window-change request at a signal that finds the terminal
  at the size the loop sent last. The code sends it again: the terminal starts at 80 by
  25, a first signal finds it at 100 by 30 and the loop sends 100 by 30, a second signal
  finds it at 100 by 30 still and the loop sends 100 by 30 once more. The guard compares
  with \<^verbatim>\<open>currentSize\<close>, which the signal case never assigns and which is 80 by 25 after
  both signals.
\<close>

theorem updateTerminalSize_resends:
  "updateTerminalSize (\<lparr>Height = 25, Width = 80\<rparr>, None) None
     [SigWinch (\<lparr>Height = 30, Width = 100\<rparr>, None) None]
   = (Goes \<lparr>currentSize = \<lparr>Height = 25, Width = 80\<rparr>, prevSess = None\<rparr>,
      [TermGetWinsize, SiteConnect, TermGetWinsize, SendWindowChange 100 30])
   \<and> updateTerminalSize (\<lparr>Height = 25, Width = 80\<rparr>, None) None
     [SigWinch (\<lparr>Height = 30, Width = 100\<rparr>, None) None,
      SigWinch (\<lparr>Height = 30, Width = 100\<rparr>, None) None]
   = (Goes \<lparr>currentSize = \<lparr>Height = 25, Width = 80\<rparr>, prevSess = None\<rparr>,
      [TermGetWinsize, SiteConnect, TermGetWinsize, SendWindowChange 100 30,
       TermGetWinsize, SendWindowChange 100 30])"
  by (simp add: updateTerminalSize_def updateStep_def)

text \<open>
  Two more runs of the same stale \<^verbatim>\<open>currentSize\<close>. The comment on the guard has it catch
  the signal of the loop's own resize; but a tick reads \<^verbatim>\<open>currentSize\<close> before it resizes
  the terminal, so after a tick has resized 80 by 25 to 120 by 40 the signal that finds
  120 by 40 sends the request. And a terminal resized to 100 by 30 and back to 80 by 25
  leaves the remote session at 100 by 30: the second signal sends nothing.
\<close>

lemma updateTerminalSize_echoes_own_resize:
  "updateTerminalSize (\<lparr>Height = 25, Width = 80\<rparr>, None) None
     [Tick (Inr (Some \<lparr>ID = ''joined'', TerminalParams = \<lparr>W = 80, H = 25\<rparr>\<rparr>))
        (\<lparr>Height = 25, Width = 80\<rparr>, None) None,
      Tick (Inr (Some \<lparr>ID = ''joined'', TerminalParams = \<lparr>W = 120, H = 40\<rparr>\<rparr>))
        (\<lparr>Height = 25, Width = 80\<rparr>, None) None,
      SigWinch (\<lparr>Height = 40, Width = 120\<rparr>, None) None]
   = (Goes \<lparr>currentSize = \<lparr>Height = 25, Width = 80\<rparr>,
            prevSess = Some \<lparr>ID = ''joined'', TerminalParams = \<lparr>W = 120, H = 40\<rparr>\<rparr>\<rparr>,
      [TermGetWinsize, SiteConnect,
       SiteGetSession,
       SiteGetSession, LogInfo, TermGetWinsize, TermSetWinsize \<lparr>Height = 40, Width = 120\<rparr>,
       StdoutWrite (CHR 0x1B # ''[8;40;120t''),
       TermGetWinsize, SendWindowChange 120 40])"
  by (simp add: updateTerminalSize_def updateStep_def TerminalParams_Winsize_def resizeSequence_def)

lemma updateTerminalSize_swallows_resize:
  "updateTerminalSize (\<lparr>Height = 25, Width = 80\<rparr>, None) None
     [SigWinch (\<lparr>Height = 30, Width = 100\<rparr>, None) None,
      SigWinch (\<lparr>Height = 25, Width = 80\<rparr>, None) None]
   = (Goes \<lparr>currentSize = \<lparr>Height = 25, Width = 80\<rparr>, prevSess = None\<rparr>,
      [TermGetWinsize, SiteConnect, TermGetWinsize, SendWindowChange 100 30, TermGetWinsize])"
  by (simp add: updateTerminalSize_def updateStep_def)

subsection \<open>File transfer\<close>

text \<open>
  When the goroutine's assignment does not fall between the test and the assignment of
  the function, an end-of-stream from \<^verbatim>\<open>Execute\<close> makes \<^verbatim>\<open>scp\<close> return \<^verbatim>\<open>nil\<close>, whatever
  the remote command returned.
\<close>

lemma scp_EOF_when_ordered:
  assumes "NewSession (NodeSsh client) 0 = Inr session"
    and "StdinPipe session = None" and "StdoutPipe session = None"
    and "sched \<noteq> ExecuteBetween"
  shows "scp client (Some EOF) sched shellCmd = None"
  using assms by (cases sched) (simp_all add: scp_def reconcile_def)

text \<open>
  C7. \<^verbatim>\<open>Execute\<close> ends with an end-of-stream and the remote command with an error. When
  the goroutine assigns \<^verbatim>\<open>err\<close> after the function has found \<^verbatim>\<open>err == nil\<close> and before it
  assigns \<^verbatim>\<open>err = runErr\<close>, the end-of-stream is overwritten and \<^verbatim>\<open>scp\<close> returns the error
  of the remote command, where the claim has \<^verbatim>\<open>nil\<close>.
\<close>

theorem scp_EOF_overwritten:
  "scp failingNode (Some EOF) ExecuteBetween ''/usr/bin/scp -t /tmp/f''
     = Some (LibError ''Process exited with status 1'')"
  by (simp add: scp_def reconcile_def failingNode_def readySession_def Wrap_def)


subsection \<open>Port forwarding\<close>


lemma dials_append: "dials (xs @ ys) = dials xs + dials ys"
  by (induction xs rule: dials.induct) auto

lemma dialLoop_6: "dialLoop dial 6 conn err = ((conn, err), [])"
  by (subst dialLoop.simps) simp

lemma dialLoop_5:
  "dialLoop dial 5 conn err
     = (case dial 5 of
          Inl e \<Rightarrow> ((None, Some e), [Dial 5, LogAttempt 5 e, Sleep 500])
        | Inr c \<Rightarrow> ((Some c, None), [Dial 5]))"
  by (subst dialLoop.simps) (simp add: dialLoop_6 split: sum.splits)

lemma dialLoop_4:
  "dialLoop dial 4 conn err
     = (case dial 4 of
          Inl e \<Rightarrow> (case dialLoop dial 5 None (Some e) of
                     (r, evs) \<Rightarrow> (r, [Dial 4, LogAttempt 4 e, Sleep 400] @ evs))
        | Inr c \<Rightarrow> ((Some c, None), [Dial 4]))"
  by (subst dialLoop.simps) (simp split: sum.splits)

lemma dialLoop_3:
  "dialLoop dial 3 conn err
     = (case dial 3 of
          Inl e \<Rightarrow> (case dialLoop dial 4 None (Some e) of
                     (r, evs) \<Rightarrow> (r, [Dial 3, LogAttempt 3 e, Sleep 300] @ evs))
        | Inr c \<Rightarrow> ((Some c, None), [Dial 3]))"
  by (subst dialLoop.simps) (simp split: sum.splits)

lemma dialLoop_2:
  "dialLoop dial 2 conn err
     = (case dial 2 of
          Inl e \<Rightarrow> (case dialLoop dial 3 None (Some e) of
                     (r, evs) \<Rightarrow> (r, [Dial 2, LogAttempt 2 e, Sleep 200] @ evs))
        | Inr c \<Rightarrow> ((Some c, None), [Dial 2]))"
  by (subst dialLoop.simps) (simp split: sum.splits)

lemma dialLoop_1:
  "dialLoop dial 1 conn err
     = (case dial 1 of
          Inl e \<Rightarrow> (case dialLoop dial 2 None (Some e) of
                     (r, evs) \<Rightarrow> (r, [Dial 1, LogAttempt 1 e, Sleep 100] @ evs))
        | Inr c \<Rightarrow> ((Some c, None), [Dial 1]))"
  by (subst dialLoop.simps)
    (simp only: one_add_one one_le_numeral if_True mult_1_right)

lemma proxyConnection_cases:
  "proxyConnection dial =
     (case dial 1 of Inr c \<Rightarrow> (Forwarded c, [Dial 1, CopyStreams c, CloseConn c, CloseIncoming])
      | Inl e1 \<Rightarrow>
     (case dial 2 of Inr c \<Rightarrow>
         (Forwarded c, backoffs dial [1] @ [Dial 2, CopyStreams c, CloseConn c, CloseIncoming])
      | Inl e2 \<Rightarrow>
     (case dial 3 of Inr c \<Rightarrow>
         (Forwarded c, backoffs dial [1, 2] @ [Dial 3, CopyStreams c, CloseConn c, CloseIncoming])
      | Inl e3 \<Rightarrow>
     (case dial 4 of Inr c \<Rightarrow>
         (Forwarded c, backoffs dial [1, 2, 3] @ [Dial 4, CopyStreams c, CloseConn c, CloseIncoming])
      | Inl e4 \<Rightarrow>
     (case dial 5 of Inr c \<Rightarrow>
         (Forwarded c, backoffs dial [1, 2, 3, 4] @ [Dial 5, CopyStreams c, CloseConn c, CloseIncoming])
      | Inl e5 \<Rightarrow>
         (Abandoned, backoffs dial [1, 2, 3, 4, 5] @ [LogFailed, CloseIncoming]))))))"
  unfolding proxyConnection_def dialLoop_1 dialLoop_2 dialLoop_3 dialLoop_4 dialLoop_5
  by (simp split: sum.splits)

lemma upt_from_1:
  "[Suc 0..<Suc 0] = ([] :: nat list)" "[Suc 0..<2] = [1 :: nat]" "[Suc 0..<3] = [1, 2 :: nat]"
  "[Suc 0..<4] = [1, 2, 3 :: nat]" "[Suc 0..<5] = [1, 2, 3, 4 :: nat]"
  by (simp_all add: upt_conv_Cons)

lemma acceptLoop_served:
  "length (acceptLoop dial k accepts) = length (takeWhile (\<lambda>a. a = None) accepts)
   \<and> (\<forall>i < length (acceptLoop dial k accepts).
         acceptLoop dial k accepts ! i = proxyConnection (dial (k + i)))"
proof (induction dial k accepts rule: acceptLoop.induct)
  case (3 dial k accepts)
  then show ?case by (auto simp: nth_Cons')
qed simp_all

text \<open>
  C3. The handler of an accepted connection dials at most five times. When the five
  attempts fail it has slept 100 ms times the attempt's number after each of them, logs
  the failure and returns, abandoning that connection. When the attempt \<open>j\<close> is the
  first to succeed, it has slept 100 ms times the attempt's number after each failed
  attempt before \<open>j\<close>, dials no more after \<open>j\<close> and copies the streams. The accept loop
  starts a handler for every connection accepted before \<^verbatim>\<open>Accept\<close> fails, and the handler
  of the \<open>k\<close>-th connection is decided by the answers to its own dials, whatever became
  of the others.
\<close>

theorem listenAndForward_retries:
  "dials (snd (proxyConnection dial)) \<le> 5
   \<and> ((\<forall>a \<in> {1..5}. isl (dial a)) \<longrightarrow>
        proxyConnection dial = (Abandoned, backoffs dial [1, 2, 3, 4, 5] @ [LogFailed, CloseIncoming]))
   \<and> (j \<in> {1..5} \<and> (\<forall>a \<in> {1..<j}. isl (dial a)) \<and> dial j = Inr c \<longrightarrow>
        proxyConnection dial
          = (Forwarded c, backoffs dial [1..<j] @ [Dial j, CopyStreams c, CloseConn c, CloseIncoming]))
   \<and> length (listenAndForward dialOf accepts) = length (takeWhile (\<lambda>a. a = None) accepts)
   \<and> (\<forall>k < length (listenAndForward dialOf accepts).
         listenAndForward dialOf accepts ! k = proxyConnection (dialOf k))"
proof (intro conjI impI)
  show "dials (snd (proxyConnection dial)) \<le> 5"
    by (simp add: proxyConnection_cases dials_append split: sum.splits)
next
  assume "\<forall>a \<in> {1..5}. isl (dial a)"
  then have "isl (dial 1)" "isl (dial 2)" "isl (dial 3)" "isl (dial 4)" "isl (dial 5)"
    by simp_all
  then show "proxyConnection dial
               = (Abandoned, backoffs dial [1, 2, 3, 4, 5] @ [LogFailed, CloseIncoming])"
    by (simp add: proxyConnection_cases isl_def split: sum.splits) auto
next
  assume a: "j \<in> {1..5} \<and> (\<forall>a \<in> {1..<j}. isl (dial a)) \<and> dial j = Inr c"
  then have pre: "\<exists>e. dial b = Inl e" if "1 \<le> b" and "b < j" for b
    using that by (simp add: isl_def)
  from a consider "j = 1" | "j = 2" | "j = 3" | "j = 4" | "j = 5"
    by (auto simp: numeral_eq_Suc le_Suc_eq)
  then show "proxyConnection dial
               = (Forwarded c, backoffs dial [1..<j] @ [Dial j, CopyStreams c, CloseConn c, CloseIncoming])"
  proof cases
    case 1
    with a show ?thesis by (simp add: proxyConnection_cases)
  next
    case 2
    with pre [of 1] obtain e1 where "dial 1 = Inl e1"
      by auto
    with a 2 show ?thesis
      by (simp add: proxyConnection_cases upt_from_1)
  next
    case 3
    with pre [of 1] pre [of 2] obtain e1 e2 where "dial 1 = Inl e1" "dial 2 = Inl e2"
      by auto
    with a 3 show ?thesis
      by (simp add: proxyConnection_cases upt_from_1)
  next
    case 4
    with pre [of 1] pre [of 2] pre [of 3] obtain e1 e2 e3
      where "dial 1 = Inl e1" "dial 2 = Inl e2" "dial 3 = Inl e3"
      by auto
    with a 4 show ?thesis
      by (simp add: proxyConnection_cases upt_from_1)
  next
    case 5
    with pre [of 1] pre [of 2] pre [of 3] pre [of 4] obtain e1 e2 e3 e4
      where "dial 1 = Inl e1" "dial 2 = Inl e2" "dial 3 = Inl e3" "dial 4 = Inl e4"
      by auto
    with a 5 show ?thesis
      by (simp add: proxyConnection_cases upt_from_1)
  qed
next
  show "length (listenAndForward dialOf accepts) = length (takeWhile (\<lambda>a. a = None) accepts)"
    using acceptLoop_served [of dialOf 0 accepts] by (simp add: listenAndForward_def)
next
  show "\<forall>k < length (listenAndForward dialOf accepts).
          listenAndForward dialOf accepts ! k = proxyConnection (dialOf k)"
    using acceptLoop_served [of dialOf 0 accepts] by (simp add: listenAndForward_def)
qed

theorem listenAndForward_retries_witness:
  "proxyConnection (flakyDial 1)
     = (Abandoned,
        [Dial 1, LogAttempt 1 (LibError ''refused''), Sleep 100,
         Dial 2, LogAttempt 2 (LibError ''refused''), Sleep 200,
         Dial 3, LogAttempt 3 (LibError ''refused''), Sleep 300,
         Dial 4, LogAttempt 4 (LibError ''refused''), Sleep 400,
         Dial 5, LogAttempt 5 (LibError ''refused''), Sleep 500,
         LogFailed, CloseIncoming])
   \<and> proxyConnection (flakyDial 2)
     = (Forwarded 2,
        [Dial 1, LogAttempt 1 (LibError ''refused''), Sleep 100,
         Dial 2, LogAttempt 2 (LibError ''refused''), Sleep 200,
         Dial 3, LogAttempt 3 (LibError ''refused''), Sleep 300,
         Dial 4, LogAttempt 4 (LibError ''refused''), Sleep 400,
         Dial 5, CopyStreams 2, CloseConn 2, CloseIncoming])
   \<and> length (listenAndForward flakyDial [None, None, None, Some (LibError ''closed'')]) = 3
   \<and> listenAndForward flakyDial [None, None, None, Some (LibError ''closed'')] ! 2
     = proxyConnection (flakyDial 2)"
  using listenAndForward_retries [of "flakyDial 1" 1 0 flakyDial "[None, None, None, Some (LibError ''closed'')]"]
    listenAndForward_retries [of "flakyDial 2" 5 2 flakyDial "[None, None, None, Some (LibError ''closed'')]"]
  by (simp add: flakyDial_def upt_from_1)

end
